theory Spec2Isabelle
  imports Complex_Main "HOL-Library.Multiset"
begin

section \<open>Wind field compute shader of src/main.cpp\<close>

text \<open>
  The GLSL kernel embedded in \<^verbatim>\<open>initComputeShader\<close> is translated function by
  function. The shader's \<^verbatim>\<open>float\<close> is read as a real number (exact arithmetic, no
  rounding, no NaN); \<^verbatim>\<open>int\<close> is read as an integer, no operation of the kernel
  overflows it. A \<^verbatim>\<open>vec2\<close> is a pair, \<^verbatim>\<open>.x\<close> is \<open>fst\<close> and \<^verbatim>\<open>.y\<close> is \<open>snd\<close>.
  Two properties depend on what float32 does beyond exact arithmetic, and there the
  model follows float32: the accumulation of the loop is given a second time with
  every product and sum rounded to float32, and \<^verbatim>\<open>glm::normalize\<close> has a result only
  while the squared length is a normal float32 number.
\<close>

subsection \<open>Vectors\<close>

type_synonym vec2 = "real \<times> real"
type_synonym vec4 = "real \<times> real \<times> real \<times> real"

definition vadd :: "vec2 \<Rightarrow> vec2 \<Rightarrow> vec2" where
  "vadd a b = (fst a + fst b, snd a + snd b)"

definition vsub :: "vec2 \<Rightarrow> vec2 \<Rightarrow> vec2" where
  "vsub a b = (fst a - fst b, snd a - snd b)"

definition vscale :: "vec2 \<Rightarrow> real \<Rightarrow> vec2" where
  "vscale v k = (fst v * k, snd v * k)"

definition vlength :: "vec2 \<Rightarrow> real" where
  "vlength v = sqrt (fst v * fst v + snd v * snd v)"

text \<open>
  GLSL's two-argument \<^verbatim>\<open>atan(y, x)\<close>: the angle of the point \<open>(x, y)\<close>, between
  \<open>-pi\<close> and \<open>pi\<close>. GLSL leaves the result undefined when both arguments are zero;
  \<open>u\<close> is the value the implementation returns there.
\<close>

definition glsl_atan :: "real \<Rightarrow> real \<Rightarrow> real \<Rightarrow> real" where
  "glsl_atan u y x =
     (if 0 < x then arctan (y / x)
      else if x < 0 \<and> 0 \<le> y then arctan (y / x) + pi
      else if x < 0 then arctan (y / x) - pi
      else if 0 < y then pi / 2
      else if y < 0 then - (pi / 2)
      else u)"

subsection \<open>Data\<close>

definition SHAPE_CIRCLE :: int where "SHAPE_CIRCLE = 0"
definition SHAPE_RECT :: int where "SHAPE_RECT = 1"
definition SHAPE_SECTOR :: int where "SHAPE_SECTOR = 2"

text \<open>The shader's \<^verbatim>\<open>WindShape\<close>, without its two padding fields. The field
  \<^verbatim>\<open>type\<close> is an \<^verbatim>\<open>int\<close> in the shader, so any integer can arrive there;
  \<^verbatim>\<open>size\<close> is named \<open>size2\<close> here.\<close>

record WindShape =
  type :: int
  pos :: vec2
  size2 :: vec2
  rotation :: real
  angleRange :: real
  windDir :: vec2
  windSpeed :: real

text \<open>The uniform block. The array \<^verbatim>\<open>shapes[128]\<close> is a list; in the program
  its length is 128.\<close>

record WindFieldParams =
  shapeCount :: int
  rtWidth :: int
  rtHeight :: int
  shapes :: "WindShape list"

text \<open>The output image: a texel for every integer coordinate.\<close>

type_synonym image2D = "int \<times> int \<Rightarrow> vec4"

definition imageStore :: "image2D \<Rightarrow> int \<times> int \<Rightarrow> vec4 \<Rightarrow> image2D" where
  "imageStore img coord v = img(coord := v)"

subsection \<open>Helper functions of the shader\<close>

definition deg2rad :: "real \<Rightarrow> real" where
  "deg2rad deg = deg * 3.1415926535 / 180"

definition rotateVec :: "vec2 \<Rightarrow> real \<Rightarrow> vec2" where
  "rotateVec v rad =
     (let c = cos rad; s = sin rad
      in (fst v * c - snd v * s, fst v * s + snd v * c))"

definition isInCircle :: "vec2 \<Rightarrow> WindShape \<Rightarrow> bool" where
  "isInCircle pixelPos shape =
     (let r = fst (size2 shape);
          dist = vlength (vsub pixelPos (pos shape))
      in dist \<le> r)"

definition isInRect :: "vec2 \<Rightarrow> WindShape \<Rightarrow> bool" where
  "isInRect pixelPos shape =
     (let halfSize = vscale (size2 shape) 0.5;
          delta = vsub pixelPos (pos shape);
          rad = deg2rad (- rotation shape);
          delta' = rotateVec delta rad
      in \<bar>fst delta'\<bar> \<le> fst halfSize \<and> \<bar>snd delta'\<bar> \<le> snd halfSize)"

text \<open>The angle computed in \<^verbatim>\<open>isInSector\<close>: degrees, with 360 added to a negative
  value.\<close>

definition sectorAngle :: "real \<Rightarrow> vec2 \<Rightarrow> real" where
  "sectorAngle u delta =
     (let angle = glsl_atan u (snd delta) (fst delta) * 180 / 3.1415926535
      in if angle < 0 then angle + 360 else angle)"

definition isInSector :: "real \<Rightarrow> vec2 \<Rightarrow> WindShape \<Rightarrow> bool" where
  "isInSector u pixelPos shape =
     (let r = fst (size2 shape);
          delta = vsub pixelPos (pos shape);
          dist = vlength delta
      in if r < dist then False
         else
           let angle = sectorAngle u delta;
               startAngle = rotation shape;
               endAngle = startAngle + angleRange shape
           in if 360 < endAngle
              then startAngle \<le> angle \<or> angle \<le> endAngle - 360
              else startAngle \<le> angle \<and> angle \<le> endAngle)"

definition getShapeWindVec :: "vec2 \<Rightarrow> WindShape \<Rightarrow> vec2" where
  "getShapeWindVec pixelPos shape =
     (let baseVec = vscale (windDir shape) (windSpeed shape) in baseVec)"

subsection \<open>The kernel\<close>

text \<open>The \<^verbatim>\<open>switch\<close> of \<^verbatim>\<open>main\<close> that sets the local \<^verbatim>\<open>isInShape\<close>.\<close>

definition isInShape :: "real \<Rightarrow> vec2 \<Rightarrow> WindShape \<Rightarrow> bool" where
  "isInShape u pixelPos shape =
     (if type shape = SHAPE_CIRCLE then isInCircle pixelPos shape
      else if type shape = SHAPE_RECT then isInRect pixelPos shape
      else if type shape = SHAPE_SECTOR then isInSector u pixelPos shape
      else False)"

text \<open>The body of one iteration of the \<^verbatim>\<open>for\<close> loop, on the accumulator.\<close>

definition accumulate :: "real \<Rightarrow> vec2 \<Rightarrow> vec2 \<Rightarrow> WindShape \<Rightarrow> vec2" where
  "accumulate u pixelPos totalWindVec shape =
     (if isInShape u pixelPos shape
      then vadd totalWindVec (getShapeWindVec pixelPos shape)
      else totalWindVec)"

text \<open>The \<^verbatim>\<open>for\<close> loop from index \<open>i\<close> on. A read of \<^verbatim>\<open>params.shapes[i]\<close>
  outside the array is undefined in GLSL: the loop then has no result, \<open>None\<close>.\<close>

function shapeLoop ::
  "real \<Rightarrow> WindFieldParams \<Rightarrow> vec2 \<Rightarrow> int \<Rightarrow> vec2 \<Rightarrow> vec2 option" where
  "shapeLoop u params pixelPos i totalWindVec =
     (if i < shapeCount params then
        (if 0 \<le> i \<and> nat i < length (shapes params)
         then shapeLoop u params pixelPos (i + 1)
                (accumulate u pixelPos totalWindVec (shapes params ! nat i))
         else None)
      else Some totalWindVec)"
  by pat_completeness auto
termination
  by (relation "measure (\<lambda>(u, params, pixelPos, i, t). nat (shapeCount params - i))") auto

declare shapeLoop.simps [simp del]

text \<open>The kernel for one invocation. \<open>gid\<close> is \<^verbatim>\<open>gl_GlobalInvocationID.xy\<close>, two
  unsigned numbers; the result is the image after the invocation.\<close>

definition main :: "real \<Rightarrow> WindFieldParams \<Rightarrow> nat \<times> nat \<Rightarrow> image2D \<Rightarrow> image2D option" where
  "main u params gid windRT =
     (let pixelCoord = (int (fst gid), int (snd gid));
          pixelPos = (real_of_int (fst pixelCoord), real_of_int (snd pixelCoord))
      in if rtWidth params \<le> fst pixelCoord \<or> rtHeight params \<le> snd pixelCoord
         then Some windRT
         else (case shapeLoop u params pixelPos 0 (0, 0) of
                 None \<Rightarrow> None
               | Some totalWindVec \<Rightarrow>
                   Some (imageStore windRT pixelCoord
                          (fst totalWindVec, snd totalWindVec, 0, 0))))"

text \<open>The wind vector of a cell for a list of shapes: the uniform block holds the
  list and its length.\<close>

definition evaluate :: "real \<Rightarrow> vec2 \<Rightarrow> WindShape list \<Rightarrow> vec2 option" where
  "evaluate u pixelPos ss =
     shapeLoop u \<lparr>shapeCount = int (length ss), rtWidth = 0, rtHeight = 0, shapes = ss\<rparr>
       pixelPos 0 (0, 0)"

subsection \<open>The accumulation in float32\<close>









subsection \<open>Shape set-up on the CPU side\<close>






datatype ShapeSetError = CapacityExceeded

text \<open>
  Modelled from the spec: \<^verbatim>\<open>ShapeSet.add\<close>. The source has no such operation (it
  declares the fixed array \<^verbatim>\<open>WindShape shapes[128]\<close> and fills three entries by
  assignment), so the operation follows the specification's words: it fails with
  \<^verbatim>\<open>CapacityExceeded\<close> if the set already holds 128 shapes, and stores the shape
  otherwise. \<open>prepare\<close> is the normalisation of the shape before it is stored. The
  result is the outcome and the set after the call.
\<close>

definition ShapeSet_add ::
  "(WindShape \<Rightarrow> WindShape) \<Rightarrow> WindShape list \<Rightarrow> WindShape \<Rightarrow>
     (ShapeSetError + unit) \<times> WindShape list" where
  "ShapeSet_add prepare sset shape =
     (if 128 \<le> length sset then (Inl CapacityExceeded, sset)
      else (Inr (), sset @ [prepare shape]))"

subsection \<open>Example inputs\<close>

text \<open>A uniform block with three shapes in use and a fourth array entry that is not
  in use: a circle and a rectangle around the origin, and a circle far from it.\<close>

definition exParams :: WindFieldParams where
  "exParams = \<lparr>shapeCount = 3, rtWidth = 1024, rtHeight = 768, shapes =
     [\<lparr>type = 0, pos = (0, 0), size2 = (1, 0), rotation = 0, angleRange = 0,
        windDir = (1, 0), windSpeed = 2\<rparr>,
      \<lparr>type = 1, pos = (0, 0), size2 = (4, 2), rotation = 0, angleRange = 0,
        windDir = (0, 1), windSpeed = 3\<rparr>,
      \<lparr>type = 0, pos = (10, 0), size2 = (1, 0), rotation = 0, angleRange = 0,
        windDir = (1, 1), windSpeed = 5\<rparr>,
      \<lparr>type = 0, pos = (0, 0), size2 = (1, 0), rotation = 0, angleRange = 0,
        windDir = (7, 7), windSpeed = 1\<rparr>]\<rparr>"

text \<open>A shape whose \<^verbatim>\<open>type\<close> is none of the three constants.\<close>

definition exUnknown :: WindShape where
  "exUnknown = \<lparr>type = 7, pos = (0, 0), size2 = (1, 0), rotation = 0, angleRange = 0,
     windDir = (1, 0), windSpeed = 4\<rparr>"

text \<open>A uniform block whose \<^verbatim>\<open>shapeCount\<close> is negative and whose array is empty.\<close>

definition exEmpty :: WindFieldParams where
  "exEmpty = \<lparr>shapeCount = - 1, rtWidth = 10, rtHeight = 10, shapes = []\<rparr>"

text \<open>The circle of the concrete scenario: centre (5,5), radius 2, direction (1,0),
  speed 3.\<close>

definition exCircle :: WindShape where
  "exCircle = \<lparr>type = 0, pos = (5, 5), size2 = (2, 0), rotation = 0, angleRange = 0,
     windDir = (1, 0), windSpeed = 3\<rparr>"





section \<open>Properties\<close>

subsection \<open>The loop as a fold\<close>

lemma shapeLoop_done: "shapeCount params \<le> i \<Longrightarrow> shapeLoop u params p i t = Some t"
  by (simp add: shapeLoop.simps)

lemma shapeLoop_step:
  "i < shapeCount params \<Longrightarrow> 0 \<le> i \<Longrightarrow> nat i < length (shapes params) \<Longrightarrow>
   shapeLoop u params p i t =
     shapeLoop u params p (i + 1) (accumulate u p t (shapes params ! nat i))"
  by (subst shapeLoop.simps) simp

lemma shapeLoop_foldl:
  "0 \<le> i \<Longrightarrow> i \<le> shapeCount params \<Longrightarrow>
   shapeCount params \<le> int (length (shapes params)) \<Longrightarrow>
   shapeLoop u params p i t =
     Some (foldl (accumulate u p) t
            (drop (nat i) (take (nat (shapeCount params)) (shapes params))))"
proof (induction u params p i t rule: shapeLoop.induct)
  case (1 u params p i t)
  show ?case
  proof (cases "i < shapeCount params")
    case False
    with 1 show ?thesis by (simp add: shapeLoop_done)
  next
    case True
    let ?xs = "take (nat (shapeCount params)) (shapes params)"
    from True 1 have lt: "nat i < length ?xs" by simp
    have inb: "nat i < length (shapes params)" using True 1 by simp
    have nth: "?xs ! nat i = shapes params ! nat i" using True 1 by simp
    have dr: "drop (nat i) ?xs = (shapes params ! nat i) # drop (nat (i + 1)) ?xs"
      using Cons_nth_drop_Suc [OF lt] nth "1.prems" by (simp add: nat_add_distrib)
    have "shapeLoop u params p i t =
          shapeLoop u params p (i + 1) (accumulate u p t (shapes params ! nat i))"
      using True 1 inb by (simp add: shapeLoop_step)
    also have "\<dots> =
          Some (foldl (accumulate u p) (accumulate u p t (shapes params ! nat i))
                 (drop (nat (i + 1)) ?xs))"
      using "1.IH" [OF True] True "1.prems" inb by simp
    finally show ?thesis by (simp add: dr)
  qed
qed

lemma foldl_accumulate:
  "foldl (accumulate u p) t ss =
     (fst t + sum_list (map (\<lambda>s. fst (windDir s) * windSpeed s) (filter (isInShape u p) ss)),
      snd t + sum_list (map (\<lambda>s. snd (windDir s) * windSpeed s) (filter (isInShape u p) ss)))"
  by (induction ss arbitrary: t)
     (simp_all add: accumulate_def getShapeWindVec_def vadd_def vscale_def add.assoc)

lemma evaluate_eq:
  "evaluate u p ss =
     Some (sum_list (map (\<lambda>s. fst (windDir s) * windSpeed s) (filter (isInShape u p) ss)),
           sum_list (map (\<lambda>s. snd (windDir s) * windSpeed s) (filter (isInShape u p) ss)))"
  by (simp add: evaluate_def shapeLoop_foldl foldl_accumulate)

lemma take3: "take 3 (a # b # c # xs) = [a, b, c]"
  by (simp add: numeral_3_eq_3)

subsection \<open>Accumulation\<close>

text \<open>
  C1. For every cell position and every uniform block whose \<^verbatim>\<open>shapeCount\<close> lies
  within the array, the loop started at index 0 with the accumulator (0,0) returns the
  sum of \<^verbatim>\<open>windDir * windSpeed\<close> over exactly the shapes in use that contain the
  cell. Each contribution enters at full magnitude and the sum is neither clamped nor
  averaged: a cell inside two shapes gets the sum of both contributions.
\<close>

theorem shapeLoop_sums_contained:
  "0 \<le> shapeCount params \<Longrightarrow> shapeCount params \<le> int (length (shapes params)) \<Longrightarrow>
   shapeLoop u params p 0 (0, 0) =
     Some (sum_list (map (\<lambda>s. fst (windDir s) * windSpeed s)
             (filter (isInShape u p) (take (nat (shapeCount params)) (shapes params)))),
           sum_list (map (\<lambda>s. snd (windDir s) * windSpeed s)
             (filter (isInShape u p) (take (nat (shapeCount params)) (shapes params)))))"
  by (simp add: shapeLoop_foldl foldl_accumulate)

theorem shapeLoop_sums_contained_witness:
  "0 \<le> shapeCount exParams \<and> shapeCount exParams \<le> int (length (shapes exParams)) \<and>
   isInShape 0 (0, 0) (shapes exParams ! 0) \<and> isInShape 0 (0, 0) (shapes exParams ! 1) \<and>
   \<not> isInShape 0 (0, 0) (shapes exParams ! 2) \<and>
   shapeLoop 0 exParams (0, 0) 0 (0, 0) = Some (2, 3)"
  using shapeLoop_sums_contained [of exParams 0 "(0, 0)"]
  by (simp add: exParams_def take3 isInShape_def isInCircle_def isInRect_def vlength_def
      vsub_def vscale_def rotateVec_def deg2rad_def SHAPE_CIRCLE_def SHAPE_RECT_def
      SHAPE_SECTOR_def)

text \<open>
  C7. A shape whose \<^verbatim>\<open>type\<close> is none of \<^verbatim>\<open>SHAPE_CIRCLE\<close>, \<^verbatim>\<open>SHAPE_RECT\<close>,
  \<^verbatim>\<open>SHAPE_SECTOR\<close> contains no cell: the accumulator is unchanged by it, the wind
  vector of a cell is the one computed without the shape, and the evaluation still
  returns a vector.
\<close>

theorem unknown_type_contributes_nothing:
  "type shape \<noteq> SHAPE_CIRCLE \<Longrightarrow> type shape \<noteq> SHAPE_RECT \<Longrightarrow>
   type shape \<noteq> SHAPE_SECTOR \<Longrightarrow>
   isInShape u p shape = False \<and> accumulate u p t shape = t \<and>
   evaluate u p (xs @ shape # ys) = evaluate u p (xs @ ys) \<and>
   evaluate u p (xs @ shape # ys) \<noteq> None"
  by (simp add: evaluate_eq isInShape_def accumulate_def)

theorem unknown_type_contributes_nothing_witness:
  "type exUnknown \<noteq> SHAPE_CIRCLE \<and> type exUnknown \<noteq> SHAPE_RECT \<and>
   type exUnknown \<noteq> SHAPE_SECTOR \<and>
   isInShape 0 (0, 0) exUnknown = False \<and> accumulate 0 (0, 0) (1, 1) exUnknown = (1, 1) \<and>
   evaluate 0 (0, 0) ([hd (shapes exParams)] @ exUnknown # []) =
     evaluate 0 (0, 0) ([hd (shapes exParams)] @ []) \<and>
   evaluate 0 (0, 0) ([hd (shapes exParams)] @ exUnknown # []) \<noteq> None"
  using unknown_type_contributes_nothing
          [of exUnknown 0 "(0, 0)" "(1, 1)" "[hd (shapes exParams)]" "[]"]
  by (simp add: exUnknown_def SHAPE_CIRCLE_def SHAPE_RECT_def SHAPE_SECTOR_def evaluate_eq)

subsection \<open>Float32 rounding\<close>

















subsection \<open>The order of the shapes\<close>














subsection \<open>The kernel and the image\<close>

lemma main_inside_grid:
  assumes "int x < rtWidth params" "int y < rtHeight params"
    and "0 \<le> shapeCount params" "shapeCount params \<le> int (length (shapes params))"
  shows "main u params (x, y) windRT =
     Some (windRT((int x, int y) :=
       (sum_list (map (\<lambda>s. fst (windDir s) * windSpeed s)
          (filter (isInShape u (real x, real y))
             (take (nat (shapeCount params)) (shapes params)))),
        sum_list (map (\<lambda>s. snd (windDir s) * windSpeed s)
          (filter (isInShape u (real x, real y))
             (take (nat (shapeCount params)) (shapes params)))),
        0, 0)))"
  using assms
  by (simp add: main_def Let_def shapeLoop_foldl foldl_accumulate imageStore_def)

text \<open>
  C9. An invocation whose coordinate is not inside the grid (its x is at least
  \<^verbatim>\<open>rtWidth\<close> or its y at least \<^verbatim>\<open>rtHeight\<close>) returns with the image as it was:
  no texel is written.
\<close>

theorem main_outside_grid_writes_nothing:
  "\<not> (int x < rtWidth params \<and> int y < rtHeight params) \<Longrightarrow>
   main u params (x, y) windRT = Some windRT"
  by (auto simp add: main_def Let_def)

theorem main_outside_grid_writes_nothing_witness:
  "\<not> (int 1024 < rtWidth exParams \<and> int 5 < rtHeight exParams) \<and>
   main 0 exParams (1024, 5) (\<lambda>c. (9, 9, 9, 9)) = Some (\<lambda>c. (9, 9, 9, 9))"
  using main_outside_grid_writes_nothing [of 1024 exParams 5 0 "\<lambda>c. (9, 9, 9, 9)"]
  by (simp add: exParams_def)

text \<open>
  C10. When \<^verbatim>\<open>shapeCount\<close> is zero or negative, an invocation inside the grid writes
  (0, 0, 0, 0) to its texel and changes no other texel; the array is not read, so the
  result is the same whatever the array holds.
\<close>

theorem main_no_shapes_writes_zero:
  "shapeCount params \<le> 0 \<Longrightarrow> int x < rtWidth params \<Longrightarrow> int y < rtHeight params \<Longrightarrow>
   main u params (x, y) windRT = Some (windRT((int x, int y) := (0, 0, 0, 0))) \<and>
   main u (params\<lparr>shapes := ss\<rparr>) (x, y) windRT = main u params (x, y) windRT"
  by (simp add: main_def Let_def shapeLoop_done imageStore_def)

theorem main_no_shapes_writes_zero_witness:
  "shapeCount exEmpty \<le> 0 \<and> int 3 < rtWidth exEmpty \<and> int 4 < rtHeight exEmpty \<and>
   main 0 exEmpty (3, 4) (\<lambda>c. (9, 9, 9, 9)) =
     Some ((\<lambda>c. (9, 9, 9, 9))((3, 4) := (0, 0, 0, 0))) \<and>
   main 0 (exEmpty\<lparr>shapes := shapes exParams\<rparr>) (3, 4) (\<lambda>c. (9, 9, 9, 9)) =
     main 0 exEmpty (3, 4) (\<lambda>c. (9, 9, 9, 9))"
  using main_no_shapes_writes_zero [of exEmpty 3 4 0 "\<lambda>c. (9, 9, 9, 9)" "shapes exParams"]
  by (simp add: exEmpty_def)

subsection \<open>Containment predicates\<close>

lemma vlength_vsub:
  "vlength (vsub p c) = sqrt ((fst p - fst c)\<^sup>2 + (snd p - snd c)\<^sup>2)"
  by (simp add: vlength_def vsub_def power2_eq_square)

text \<open>
  C2. For a shape list holding one circle, a cell whose Euclidean distance to the
  centre is at most the radius \<^verbatim>\<open>size.x\<close> gets exactly
  \<^verbatim>\<open>windDir * windSpeed\<close>, and a cell whose distance is greater gets (0,0); the
  circle contains a cell iff the distance is at most the radius, boundary included.
\<close>

theorem single_circle_evaluate:
  "type s = SHAPE_CIRCLE \<Longrightarrow>
   isInCircle p s = (sqrt ((fst p - fst (pos s))\<^sup>2 + (snd p - snd (pos s))\<^sup>2) \<le> fst (size2 s)) \<and>
   (sqrt ((fst p - fst (pos s))\<^sup>2 + (snd p - snd (pos s))\<^sup>2) \<le> fst (size2 s) \<longrightarrow>
      evaluate u p [s] = Some (vscale (windDir s) (windSpeed s))) \<and>
   (fst (size2 s) < sqrt ((fst p - fst (pos s))\<^sup>2 + (snd p - snd (pos s))\<^sup>2) \<longrightarrow>
      evaluate u p [s] = Some (0, 0))"
  by (simp add: evaluate_eq isInShape_def isInCircle_def vlength_vsub vscale_def)

theorem single_circle_evaluate_witness:
  "type exCircle = SHAPE_CIRCLE \<and>
   sqrt ((fst (6, 5) - fst (pos exCircle))\<^sup>2 + (snd (6, 5) - snd (pos exCircle))\<^sup>2) \<le> fst (size2 exCircle) \<and>
   evaluate 0 (6, 5) [exCircle] = Some (3, 0) \<and>
   fst (size2 exCircle) < sqrt ((fst (8, 5) - fst (pos exCircle))\<^sup>2 + (snd (8, 5) - snd (pos exCircle))\<^sup>2) \<and>
   evaluate 0 (8, 5) [exCircle] = Some (0, 0)"
  using single_circle_evaluate [of exCircle "(6, 5)" 0] single_circle_evaluate [of exCircle "(8, 5)" 0]
  by (simp add: exCircle_def SHAPE_CIRCLE_def vscale_def)















text \<open>
  C4. A rectangle at rotation \<open>\<theta>\<close> contains a point iff delta = point - centre,
  rotated by \<open>-\<theta>\<close> degrees (converted to radians with the shader's constant
  3.1415926535), has |x| <= size.x / 2 and |y| <= size.y / 2. So containment at
  rotation \<open>\<theta>\<close> equals containment of the inverse-rotated point in the same rectangle at
  rotation 0.
\<close>

theorem isInRect_inverse_rotation:
  "isInRect p (s\<lparr>rotation := \<theta>\<rparr>) =
     (let delta = vsub p (pos s);
          rad = - \<theta> * 3.1415926535 / 180;
          dx = fst delta * cos rad - snd delta * sin rad;
          dy = fst delta * sin rad + snd delta * cos rad
      in \<bar>dx\<bar> \<le> fst (size2 s) / 2 \<and> \<bar>dy\<bar> \<le> snd (size2 s) / 2) \<and>
   isInRect p (s\<lparr>rotation := \<theta>\<rparr>) =
     isInRect (vadd (pos s) (rotateVec (vsub p (pos s)) (deg2rad (- \<theta>)))) (s\<lparr>rotation := 0\<rparr>)"
  by (simp add: isInRect_def Let_def deg2rad_def rotateVec_def vsub_def vadd_def vscale_def)

subsection \<open>Shape set-up\<close>

text \<open>
  C5. Adding a shape to a set that holds 128 shapes fails with
  \<^verbatim>\<open>CapacityExceeded\<close> and leaves the set as it was; a set of at most 128 shapes
  has at most 128 shapes after any call; below the capacity the shape is stored.
\<close>

theorem ShapeSet_add_capacity:
  "(length sset = 128 \<longrightarrow> ShapeSet_add prepare sset shape = (Inl CapacityExceeded, sset)) \<and>
   (length sset \<le> 128 \<longrightarrow> length (snd (ShapeSet_add prepare sset shape)) \<le> 128) \<and>
   (length sset < 128 \<longrightarrow> ShapeSet_add prepare sset shape = (Inr (), sset @ [prepare shape]))"
  by (simp add: ShapeSet_add_def)

theorem ShapeSet_add_capacity_witness:
  "length (replicate 128 exUnknown) = 128 \<and>
   ShapeSet_add id (replicate 128 exUnknown) exUnknown = (Inl CapacityExceeded, replicate 128 exUnknown) \<and>
   length (snd (ShapeSet_add id (replicate 128 exUnknown) exUnknown)) = 128 \<and>
   length ([] :: WindShape list) < 128 \<and>
   ShapeSet_add id [] exUnknown = (Inr (), [exUnknown])"
  using ShapeSet_add_capacity [of "replicate 128 exUnknown" id exUnknown] ShapeSet_add_capacity [of "[]" id exUnknown]
  by simp







end
